theory Spec2Isabelle
  imports Main "HOL-Library.Word"
begin

section \<open>GhostGuard backend: data model\<close>

text \<open>
  The backend is one module, \<^verbatim>\<open>src/index.js\<close>: request handlers over a relational
  store (tables \<^verbatim>\<open>licenses\<close>, \<^verbatim>\<open>customers\<close>, \<^verbatim>\<open>panel_admins\<close>, \<^verbatim>\<open>bans\<close>) and over
  four process-wide objects (\<^verbatim>\<open>serverState\<close>, \<^verbatim>\<open>livePlayersByLicense\<close>, \<^verbatim>\<open>actionQueue\<close>,
  \<^verbatim>\<open>serverLogs\<close>).

  Conventions of the embedding.
  \<^item> A handler is a function from the state before the request to its response and the
    state after it; each handler runs as one step.
  \<^item> A table is the list of its rows. A query \<^verbatim>\<open>.eq(...).single()\<close> yields a row only when
    exactly one row matches, as the client library does (otherwise \<^verbatim>\<open>data\<close> is null).
    Writes to these tables take effect; the handlers never look at their outcome.
  \<^item> A text field of a request body, a header or a query parameter is a \<open>string option\<close>:
    \<open>None\<close> is an absent (undefined or null) field. A character is a UTF-16 code
    unit below 256 (ASCII and Latin-1), and the string functions below are those of
    JavaScript on such strings.
  \<^item> A point in time is the number of milliseconds since the epoch, an \<open>int\<close>; an ISO
    timestamp string is identified with the time value it denotes. A handler reads
    the clock once (\<open>now\<close>).
  \<^item> A process-wide object indexed by license key is a map from keys to its own
    properties. A key that names a property inherited from \<^verbatim>\<open>Object.prototype\<close> is read as
    that inherited value while the object has no own property for it; \<^verbatim>\<open>pushServerLog\<close>,
    which the log handler calls with the key of the request body, is modelled with this.
    For the other objects a key is taken not to be such a name.
  \<^item> Apart from the read of persisted logs, whose outcome is a parameter, the store does
    not throw. The \<^verbatim>\<open>catch\<close> around a handler (status 500) is then reached only
    through the RangeError of a date conversion or the TypeError of \<^verbatim>\<open>pushServerLog\<close>,
    which are values of the model where the source can raise them.
\<close>

text \<open>JSON values that the handlers store and pass on without computing on them.\<close>

datatype json =
    JNull
  | JBool bool
  | JNum int
  | JStr string
  | JArr "json list"
  | JObj "(string \<times> json) list"

record license =
  lic_id :: string
  lic_license_key :: string
  lic_status :: string
  lic_expires_at :: "int option"
  lic_hwid :: "string option"
  lic_last_seen :: "int option"

record customer =
  cust_id :: string
  cust_username :: string
  cust_password :: string
  cust_license_key :: string

record panel_admin =
  adm_id :: string
  adm_license_key :: string
  adm_name :: string
  adm_role :: string
  adm_active :: bool
  adm_token_hash :: string

record ban =
  ban_license_key :: string
  ban_player_id :: string
  ban_reason :: string
  ban_duration :: string
  ban_ban_id :: string
  ban_created_at :: int
  ban_expires_at :: "int option"
  ban_banned_by :: string
  ban_evidence_url :: "string option"
  ban_identifiers :: "string list"

text \<open>An entry of \<^verbatim>\<open>serverState\<close>: \<^verbatim>\<open>{ last_seen, players, uptime, version }\<close>.\<close>

record liveness =
  live_last_seen :: int
  live_players :: nat
  live_uptime :: int
  live_version :: "string option"

text \<open>An entry of a tenant's queue: \<^verbatim>\<open>{ id, type, payload, created_at }\<close>.\<close>

record action =
  act_id :: string
  act_type :: string
  act_payload :: json
  act_created_at :: int

text \<open>An entry of a tenant's log buffer, and the shape a log read returns.\<close>

record log_event =
  log_id :: string
  log_time :: "string option"
  log_level :: string
  log_type :: string
  log_title :: string
  log_message :: "string option"
  log_meta :: "json option"

record state =
  licenses :: "license list"
  customers :: "customer list"
  panel_admins :: "panel_admin list"
  bans :: "ban list"
  serverState :: "string \<rightharpoonup> liveness"
  livePlayersByLicense :: "string \<rightharpoonup> json list"
  actionQueue :: "string \<rightharpoonup> action list"
  serverLogs :: "string \<rightharpoonup> log_event list"

text \<open>The body of the plain \<^verbatim>\<open>{ success, error? }\<close> responses, with the HTTP status.\<close>

record response =
  res_status :: nat
  res_success :: bool
  res_error :: "string option"

subsection \<open>JavaScript helpers\<close>

text \<open>Truthiness of an optional string: undefined, null and \<^verbatim>\<open>""\<close> are falsy.\<close>

definition truthy :: "string option \<Rightarrow> bool" where
  "truthy v = (case v of None \<Rightarrow> False | Some s \<Rightarrow> s \<noteq> [])"

text \<open>\<^verbatim>\<open>.single()\<close>: the row when exactly one row matched.\<close>

definition single_row :: "'a list \<Rightarrow> 'a option" where
  "single_row rows = (case rows of [r] \<Rightarrow> Some r | _ \<Rightarrow> None)"

text \<open>\<^verbatim>\<open>obj[key] || []\<close> on a process-wide object of arrays (an array is always truthy).\<close>

definition entries :: "(string \<rightharpoonup> 'a list) \<Rightarrow> string \<Rightarrow> 'a list" where
  "entries m k = (case m k of None \<Rightarrow> [] | Some l \<Rightarrow> l)"

text \<open>\<^verbatim>\<open>v || d\<close> on an optional string.\<close>

definition orElse :: "string option \<Rightarrow> string \<Rightarrow> string" where
  "orElse v d = (case v of None \<Rightarrow> d | Some s \<Rightarrow> if s = [] then d else s)"

text \<open>
  White space and line terminators as \<^verbatim>\<open>trim\<close> and \<^verbatim>\<open>parseInt\<close> skip them: below 256 these
  are U+0009 to U+000D, the space and the no-break space U+00A0.
\<close>

definition isSpace :: "char \<Rightarrow> bool" where
  "isSpace c = (c \<in> set [CHR '' '', CHR 0x09, CHR 0x0A, CHR 0x0B, CHR 0x0C, CHR 0x0D, CHR 0xA0])"

definition trim :: "string \<Rightarrow> string" where
  "trim s = rev (dropWhile isSpace (rev (dropWhile isSpace s)))"

text \<open>
  Case mapping. Below 256 the letters with another case are A to Z and a to z, and the
  Latin-1 letters U+00C0 to U+00DE (without the sign U+00D7) with their lowercase forms
  32 above. Three lowercase code units (U+00B5, U+00DF, U+00FF) have an uppercase form
  that is no code unit below 256; \<open>toUpperChar\<close> leaves them, and is only applied to
  hexadecimal digits.
\<close>

definition toLowerChar :: "char \<Rightarrow> char" where
  "toLowerChar c =
     (case map_of (zip ''ABCDEFGHIJKLMNOPQRSTUVWXYZ'' ''abcdefghijklmnopqrstuvwxyz'') c of
        Some d \<Rightarrow> d
      | None \<Rightarrow>
          if 0xC0 \<le> (of_char c :: nat) \<and> (of_char c :: nat) \<le> 0xDE \<and> (of_char c :: nat) \<noteq> 0xD7
          then char_of (of_char c + 32 :: nat) else c)"


definition toLowerCase :: "string \<Rightarrow> string" where
  "toLowerCase s = map toLowerChar s"


definition isDigit :: "char \<Rightarrow> bool" where
  "isDigit c = (c \<in> set ''0123456789'')"

text \<open>The number a string of decimal digits denotes.\<close>

definition digitsValue :: "string \<Rightarrow> nat" where
  "digitsValue ds = foldl (\<lambda>n c. 10 * n + (of_char c - 48)) 0 ds"

text \<open>Decimal notation of a number, as string concatenation (\<^verbatim>\<open>"GG-" + Date.now()\<close>) writes it.\<close>

fun decimal :: "nat \<Rightarrow> string" where
  "decimal n = (if n < 10 then [''0123456789'' ! n]
                else decimal (n div 10) @ [''0123456789'' ! (n mod 10)])"

declare decimal.simps [simp del]

definition showInt :: "int \<Rightarrow> string" where
  "showInt i = (if i < 0 then CHR ''-'' # decimal (nat (- i)) else decimal (nat i))"



text \<open>
  Dates. A \<^verbatim>\<open>Date\<close> holds a time value of at most 8.64e15 ms in magnitude or is invalid
  (\<open>None\<close>); \<^verbatim>\<open>toISOString\<close> throws a RangeError on an invalid date. Whenever the exact
  sum or product of the operands is within that range, the double arithmetic of the source
  is exact, and beyond it the date is invalid, so the arithmetic is done on \<open>int\<close>.
\<close>

datatype js_error = RangeError | TypeError

definition maxTime :: int where
  "maxTime = 8640000000000000"

definition timeClip :: "int option \<Rightarrow> int option" where
  "timeClip t = (case t of None \<Rightarrow> None
                 | Some v \<Rightarrow> if - maxTime \<le> v \<and> v \<le> maxTime then Some v else None)"

definition toISOString :: "int option \<Rightarrow> js_error + int" where
  "toISOString d = (case d of None \<Rightarrow> Inl RangeError | Some v \<Rightarrow> Inr v)"

text \<open>
  \<^verbatim>\<open>
  const bearer = req.headers.authorization || "";
  const token = bearer.startsWith("Bearer ") ? bearer.slice(7) : null;
  \<close>
\<close>

definition bearerToken :: "string option \<Rightarrow> string option" where
  "bearerToken authorization =
     (let bearer = orElse authorization []
      in if take 7 bearer = ''Bearer '' then Some (drop 7 bearer) else None)"

section \<open>Action queue\<close>

text \<open>
  \<^verbatim>\<open>
  function pushAction(license_key, action) {
    actionQueue[license_key] = actionQueue[license_key] || [];
    actionQueue[license_key].push(action);
    if (actionQueue[license_key].length > 200) actionQueue[license_key].splice(0, 50);
  }
  \<close>
\<close>

definition pushAction :: "state \<Rightarrow> string \<Rightarrow> action \<Rightarrow> state" where
  "pushAction s license_key a =
     (let l = entries (actionQueue s) license_key @ [a]
      in s\<lparr>actionQueue := (actionQueue s)(license_key \<mapsto> (if length l > 200 then drop 50 l else l))\<rparr>)"



section \<open>Log ring buffer\<close>

text \<open>
  \<^verbatim>\<open>
  function pushServerLog(license_key, item) {
    serverLogs[license_key] = serverLogs[license_key] || [];
    serverLogs[license_key].unshift(item);
    if (serverLogs[license_key].length > 300) serverLogs[license_key].length = 300;
  }
  \<close>
\<close>

text \<open>
  The names of the properties that \<^verbatim>\<open>serverLogs\<close>, created as \<^verbatim>\<open>{}\<close>, inherits from
  \<^verbatim>\<open>Object.prototype\<close>. For such a key without own property, \<^verbatim>\<open>serverLogs[key]\<close> is the
  inherited value (a function, or the prototype for \<^verbatim>\<open>__proto__\<close>): it is truthy, so it is
  what the first line assigns, and it has no \<^verbatim>\<open>unshift\<close>, so the second line throws a
  TypeError. The assignment makes no difference to any later read of the key, and the
  state of the model stays as it was.
\<close>

definition objectPrototypeNames :: "string list" where
  "objectPrototypeNames =
     [''constructor'', ''__defineGetter__'', ''__defineSetter__'', ''hasOwnProperty'',
      ''__lookupGetter__'', ''__lookupSetter__'', ''isPrototypeOf'', ''propertyIsEnumerable'',
      ''toString'', ''valueOf'', ''__proto__'', ''toLocaleString'']"

definition pushServerLog :: "state \<Rightarrow> string \<Rightarrow> log_event \<Rightarrow> js_error + state" where
  "pushServerLog s license_key item =
     (if serverLogs s license_key = None \<and> license_key \<in> set objectPrototypeNames
        then Inl TypeError
      else
        (let l = item # entries (serverLogs s) license_key
         in Inr (s\<lparr>serverLogs :=
                     (serverLogs s)(license_key \<mapsto> (if length l > 300 then take 300 l else l))\<rparr>)))"







section \<open>Identity resolution\<close>

datatype identity = Customer customer | Admin panel_admin

fun identity_license_key :: "identity \<Rightarrow> string" where
  "identity_license_key (Customer user) = cust_license_key user"
| "identity_license_key (Admin admin) = adm_license_key admin"

text \<open>The queries \<^verbatim>\<open>resolvePanelIdentity\<close> sends to the store.\<close>

datatype store_query = CustomerById string | ActiveAdminByTokenHash string

text \<open>
  \<^verbatim>\<open>
  async function resolvePanelIdentity(token) {
    if (!token) return null;
    const { data: user } = await supabase.from("customers").select("*").eq("id", token).single();
    if (user) return { kind: "customer", license_key: user.license_key, user };
    const token_hash = sha256(token);
    const { data: admin } = await supabase.from("panel_admins").select("*")
      .eq("token_hash", token_hash).eq("active", true).single();
    if (admin) return { kind: "admin", license_key: admin.license_key, admin };
    return null;
  }
  \<close>
  The digest \<open>sha256\<close> is a parameter. The result comes with the queries sent, in order.
\<close>

definition resolvePanelIdentity ::
  "(string \<Rightarrow> string) \<Rightarrow> state \<Rightarrow> string option \<Rightarrow> identity option \<times> store_query list" where
  "resolvePanelIdentity sha256 s token =
     (case token of
        None \<Rightarrow> (None, [])
      | Some t \<Rightarrow>
          if t = [] then (None, [])
          else
            (case single_row (filter (\<lambda>c. cust_id c = t) (customers s)) of
               Some user \<Rightarrow> (Some (Customer user), [CustomerById t])
             | None \<Rightarrow>
                 (let token_hash = sha256 t
                  in case single_row
                            (filter (\<lambda>a. adm_token_hash a = token_hash \<and> adm_active a) (panel_admins s)) of
                       Some admin \<Rightarrow>
                         (Some (Admin admin), [CustomerById t, ActiveAdminByTokenHash token_hash])
                     | None \<Rightarrow> (None, [CustomerById t, ActiveAdminByTokenHash token_hash]))))"

section \<open>License verification and issue\<close>

text \<open>The assertion \<^verbatim>\<open>{ license_key, status, expires_at, issued_at }\<close> that is signed.\<close>

record assertion =
  as_license_key :: string
  as_status :: string
  as_expires_at :: "int option"
  as_issued_at :: int

text \<open>\<^verbatim>\<open>{ valid: false, reason }\<close> with its HTTP status, or \<^verbatim>\<open>{ valid: true, payload, signature }\<close>.\<close>

datatype verify_response = Invalid nat string | Valid assertion string

text \<open>
  POST \<^verbatim>\<open>/api/license/verify\<close>. The parameter \<open>sign\<close> is the HMAC-SHA256 under
  \<^verbatim>\<open>LICENSE_SECRET\<close> of the serialised assertion.
  \<^verbatim>\<open>
  if (!license_key) return res.status(400).json({ valid: false, reason: "MISSING_KEY" });
  const { data: lic, error } = await supabase.from("licenses").select("*")
    .eq("license_key", license_key).single();
  if (error || !lic) return res.json({ valid: false, reason: "NOT_FOUND" });
  if (lic.status !== "ACTIVE") return res.json({ valid: false, reason: lic.status });
  if (lic.expires_at && new Date(lic.expires_at) < new Date())
    return res.json({ valid: false, reason: "EXPIRED" });
  if (lic.hwid) {
    if (hwid && lic.hwid !== hwid) return res.json({ valid: false, reason: "HWID_MISMATCH" });
  } else if (hwid) {
    await supabase.from("licenses").update({ hwid }).eq("id", lic.id);
  }
  await supabase.from("licenses").update({ last_seen: new Date().toISOString() }).eq("id", lic.id);
  \<close>
\<close>

definition update_licenses :: "string \<Rightarrow> (license \<Rightarrow> license) \<Rightarrow> state \<Rightarrow> state" where
  "update_licenses rid f s = s\<lparr>licenses := map (\<lambda>l. if lic_id l = rid then f l else l) (licenses s)\<rparr>"

definition expired :: "license \<Rightarrow> int \<Rightarrow> bool" where
  "expired lic now = (case lic_expires_at lic of None \<Rightarrow> False | Some e \<Rightarrow> e < now)"

definition licenseVerify ::
  "(assertion \<Rightarrow> string) \<Rightarrow> int \<Rightarrow> state \<Rightarrow> string option \<Rightarrow> string option \<Rightarrow> verify_response \<times> state" where
  "licenseVerify sign now s license_key hwid =
     (case license_key of
        None \<Rightarrow> (Invalid 400 ''MISSING_KEY'', s)
      | Some key \<Rightarrow>
          if key = [] then (Invalid 400 ''MISSING_KEY'', s)
          else
            (case single_row (filter (\<lambda>l. lic_license_key l = key) (licenses s)) of
               None \<Rightarrow> (Invalid 200 ''NOT_FOUND'', s)
             | Some lic \<Rightarrow>
                 if lic_status lic \<noteq> ''ACTIVE'' then (Invalid 200 (lic_status lic), s)
                 else if expired lic now then (Invalid 200 ''EXPIRED'', s)
                 else if truthy (lic_hwid lic) \<and> truthy hwid \<and> lic_hwid lic \<noteq> hwid
                   then (Invalid 200 ''HWID_MISMATCH'', s)
                 else
                   (let s1 = (if \<not> truthy (lic_hwid lic) \<and> truthy hwid
                              then update_licenses (lic_id lic) (\<lambda>l. l\<lparr>lic_hwid := hwid\<rparr>) s
                              else s);
                        s2 = update_licenses (lic_id lic) (\<lambda>l. l\<lparr>lic_last_seen := Some now\<rparr>) s1;
                        payload = \<lparr>as_license_key = key, as_status = lic_status lic,
                                   as_expires_at = lic_expires_at lic, as_issued_at = now\<rparr>
                    in (Valid payload (sign payload), s2))))"












section \<open>Ban directory\<close>

text \<open>
  The match of \<^verbatim>\<open>/^(\d+)([mhd])$/\<close>: the number the digits denote, and the unit. (A
  number of digits beyond the exact range of a double gives an invalid date in the source
  and here alike.)
\<close>

definition matchDuration :: "string \<Rightarrow> (nat \<times> char) option" where
  "matchDuration raw =
     (if raw \<noteq> [] \<and> butlast raw \<noteq> [] \<and> list_all isDigit (butlast raw) \<and> last raw \<in> set ''mhd''
      then Some (digitsValue (butlast raw), last raw) else None)"

text \<open>
  \<^verbatim>\<open>
  function computeExpiresAt(duration, explicitExpiresAt) {
    if (explicitExpiresAt) return new Date(explicitExpiresAt).toISOString();
    const raw = String(duration || "P").trim().toLowerCase();
    if (raw === "p" || raw === "perm" || raw === "permanent") return null;
    const match = raw.match(/^(\d+)([mhd])$/);
    if (!match) return null;
    const amount = Number(match[1]);
    const unit = match[2];
    const ms = unit === "m" ? amount * 60_000 : unit === "h" ? amount * 3_600_000 : amount * 86_400_000;
    return new Date(Date.now() + ms).toISOString();
  }
  \<close>
  The parameter \<open>parseDate\<close> is the time value \<^verbatim>\<open>new Date(string)\<close> reads from a string,
  \<open>None\<close> for a string that is no date. The result is \<open>Inr None\<close> for \<^verbatim>\<open>null\<close>.
\<close>

definition computeExpiresAt ::
  "(string \<Rightarrow> int option) \<Rightarrow> int \<Rightarrow> string option \<Rightarrow> string option \<Rightarrow> js_error + int option" where
  "computeExpiresAt parseDate now duration explicitExpiresAt =
     (if truthy explicitExpiresAt
        then map_sum id Some (toISOString (timeClip (parseDate (orElse explicitExpiresAt []))))
      else
        (let raw = toLowerCase (trim (orElse duration ''P''))
         in if raw = ''p'' \<or> raw = ''perm'' \<or> raw = ''permanent'' then Inr None
            else
              (case matchDuration raw of
                 None \<Rightarrow> Inr None
               | Some (amount, unit) \<Rightarrow>
                   (let ms = (if unit = CHR ''m'' then int amount * 60000
                              else if unit = CHR ''h'' then int amount * 3600000
                              else int amount * 86400000)
                    in map_sum id Some (toISOString (timeClip (Some (now + ms))))))))"

text \<open>
  \<^verbatim>\<open>
  function normalizeIdentifiers(value) {
    if (!Array.isArray(value)) return [];
    const cleaned = value.map((x) => String(x || "").trim()).filter(Boolean);
    return [...new Set(cleaned)];
  }
  \<close>
  A \<^verbatim>\<open>Set\<close> keeps the first occurrence of each element.
\<close>

definition normalizeIdentifiers :: "string list option \<Rightarrow> string list" where
  "normalizeIdentifiers v =
     (case v of None \<Rightarrow> []
      | Some xs \<Rightarrow> rev (remdups (rev (filter (\<lambda>x. x \<noteq> []) (map trim xs)))))"

record ban_request =
  req_license_key :: "string option"
  req_player :: "string option"
  req_reason :: "string option"
  req_duration :: "string option"
  req_ban_id :: "string option"
  req_evidence_url :: "string option"
  req_banned_by :: "string option"
  req_identifiers :: "string list option"
  req_created_at :: "string option"
  req_expires_at :: "string option"

text \<open>\<^verbatim>\<open>{ success: false }\<close> with its HTTP status, or \<^verbatim>\<open>{ success: true, ban_id }\<close>.\<close>

datatype ban_response = BanFailed nat | BanCreated string

text \<open>
  POST \<^verbatim>\<open>/api/server/ban\<close>.
  \<^verbatim>\<open>
  if (!license_key || !player) return res.status(400).json({ success: false });
  const finalBanId = ban_id || ("GG-" + Date.now());
  const finalDuration = duration || "P";
  const finalCreatedAt = created_at ? new Date(created_at).toISOString() : new Date().toISOString();
  const finalExpiresAt = computeExpiresAt(finalDuration, expires_at);
  const finalIdentifiers = normalizeIdentifiers(identifiers);
  await supabase.from("bans").insert([{ license_key, player_id: player, reason: reason || "No reason",
    duration: finalDuration, ban_id: finalBanId, created_at: finalCreatedAt, expires_at: finalExpiresAt,
    banned_by: banned_by || "GhostGuard", evidence_url: evidence_url || null,
    identifiers: finalIdentifiers }]);
  res.json({ success: true, ban_id: finalBanId });
  } catch (e) { res.status(500).json({ success: false }); }
  \<close>
\<close>

definition serverBan ::
  "(string \<Rightarrow> int option) \<Rightarrow> int \<Rightarrow> state \<Rightarrow> ban_request \<Rightarrow> ban_response \<times> state" where
  "serverBan parseDate now s r =
     (if \<not> truthy (req_license_key r) \<or> \<not> truthy (req_player r) then (BanFailed 400, s)
      else
        (let finalBanId = orElse (req_ban_id r) (''GG-'' @ showInt now);
             finalDuration = orElse (req_duration r) ''P''
         in case (if truthy (req_created_at r)
                    then toISOString (timeClip (parseDate (orElse (req_created_at r) [])))
                    else Inr now) of
              Inl e \<Rightarrow> (BanFailed 500, s)
            | Inr finalCreatedAt \<Rightarrow>
                (case computeExpiresAt parseDate now (Some finalDuration) (req_expires_at r) of
                   Inl e \<Rightarrow> (BanFailed 500, s)
                 | Inr finalExpiresAt \<Rightarrow>
                     (BanCreated finalBanId,
                      s\<lparr>bans := bans s @
                           [\<lparr>ban_license_key = orElse (req_license_key r) [],
                             ban_player_id = orElse (req_player r) [],
                             ban_reason = orElse (req_reason r) ''No reason'',
                             ban_duration = finalDuration,
                             ban_ban_id = finalBanId,
                             ban_created_at = finalCreatedAt,
                             ban_expires_at = finalExpiresAt,
                             ban_banned_by = orElse (req_banned_by r) ''GhostGuard'',
                             ban_evidence_url = (if truthy (req_evidence_url r) then req_evidence_url r else None),
                             ban_identifiers = normalizeIdentifiers (req_identifiers r)\<rparr>]\<rparr>))))"

text \<open>
  DELETE \<^verbatim>\<open>/api/server/unban/:banId\<close>.
  \<^verbatim>\<open>
  const identity = await resolvePanelIdentity(token);
  if (!identity) return res.status(401).json({ success: false, error: "UNAUTHORIZED" });
  const { data: ban } = await supabase.from("bans").select("*").eq("ban_id", banId).single();
  if (!ban) return res.json({ success: false });
  if (ban.license_key !== identity.license_key)
    return res.status(403).json({ success: false, error: "FORBIDDEN" });
  await supabase.from("bans").update({ expires_at: new Date().toISOString() }).eq("ban_id", banId);
  pushAction(ban.license_key, { id: "ACT-" + Date.now(), type: "unban",
    payload: { ban_id: banId }, created_at: new Date().toISOString() });
  return res.json({ success: true });
  \<close>
\<close>

definition unbanAction :: "int \<Rightarrow> string \<Rightarrow> action" where
  "unbanAction now banId =
     \<lparr>act_id = ''ACT-'' @ showInt now, act_type = ''unban'',
      act_payload = JObj [(''ban_id'', JStr banId)], act_created_at = now\<rparr>"

definition serverUnban ::
  "(string \<Rightarrow> string) \<Rightarrow> int \<Rightarrow> state \<Rightarrow> string \<Rightarrow> string option \<Rightarrow> response \<times> state" where
  "serverUnban sha256 now s banId authorization =
     (case fst (resolvePanelIdentity sha256 s (bearerToken authorization)) of
        None \<Rightarrow> (\<lparr>res_status = 401, res_success = False, res_error = Some ''UNAUTHORIZED''\<rparr>, s)
      | Some identity \<Rightarrow>
          (case single_row (filter (\<lambda>b. ban_ban_id b = banId) (bans s)) of
             None \<Rightarrow> (\<lparr>res_status = 200, res_success = False, res_error = None\<rparr>, s)
           | Some ban \<Rightarrow>
               if ban_license_key ban \<noteq> identity_license_key identity
                 then (\<lparr>res_status = 403, res_success = False, res_error = Some ''FORBIDDEN''\<rparr>, s)
               else
                 (let s1 = s\<lparr>bans := map (\<lambda>b. if ban_ban_id b = banId
                                                then b\<lparr>ban_expires_at := Some now\<rparr> else b) (bans s)\<rparr>;
                      s2 = pushAction s1 (ban_license_key ban) (unbanAction now banId)
                  in (\<lparr>res_status = 200, res_success = True, res_error = None\<rparr>, s2))))"

section \<open>Liveness\<close>

text \<open>
  POST \<^verbatim>\<open>/api/server/heartbeat\<close>. \<open>players\<close> is any JSON value or absent; \<open>uptime\<close> is a
  whole number when present. The copy written to \<^verbatim>\<open>server_status\<close> sits in a
  \<^verbatim>\<open>try\<close> whose \<^verbatim>\<open>catch\<close> is empty, and nothing reads it: it is left out.
  \<^verbatim>\<open>
  if (!license_key) return res.status(400).json({ success: false, error: "MISSING_LICENSE" });
  livePlayersByLicense[license_key] = Array.isArray(players) ? players : [];
  serverState[license_key] = { last_seen: Date.now(), players: livePlayersByLicense[license_key].length,
    uptime: Number(uptime || 0), version: version || null };
  return res.json({ success: true });
  \<close>
\<close>

definition isArray :: "json option \<Rightarrow> bool" where
  "isArray v = (case v of Some (JArr xs) \<Rightarrow> True | _ \<Rightarrow> False)"

definition elements :: "json option \<Rightarrow> json list" where
  "elements v = (case v of Some (JArr xs) \<Rightarrow> xs | _ \<Rightarrow> [])"

definition serverHeartbeat ::
  "int \<Rightarrow> state \<Rightarrow> string option \<Rightarrow> json option \<Rightarrow> string option \<Rightarrow> int option \<Rightarrow> response \<times> state" where
  "serverHeartbeat now s license_key players version uptime =
     (if \<not> truthy license_key
        then (\<lparr>res_status = 400, res_success = False, res_error = Some ''MISSING_LICENSE''\<rparr>, s)
      else
        (let key = orElse license_key [];
             roster = (if isArray players then elements players else []);
             s1 = s\<lparr>livePlayersByLicense := (livePlayersByLicense s)(key \<mapsto> roster)\<rparr>;
             s2 = s1\<lparr>serverState := (serverState s1)(key \<mapsto>
                     \<lparr>live_last_seen = now,
                      live_players = length (entries (livePlayersByLicense s1) key),
                      live_uptime = (case uptime of None \<Rightarrow> 0 | Some u \<Rightarrow> u),
                      live_version = (if truthy version then version else None)\<rparr>)\<rparr>
         in (\<lparr>res_status = 200, res_success = True, res_error = None\<rparr>, s2)))"

section \<open>Concrete inputs\<close>

text \<open>States and requests on which the properties below are exercised.\<close>

definition st0 :: state where
  "st0 = \<lparr>licenses = [], customers = [], panel_admins = [], bans = [],
          serverState = Map.empty, livePlayersByLicense = Map.empty,
          actionQueue = Map.empty, serverLogs = Map.empty\<rparr>"



text \<open>A stand-in for the digest in the concrete inputs.\<close>

definition digest :: "string \<Rightarrow> string" where
  "digest t = ''sha256:'' @ t"

definition alice :: customer where
  "alice = \<lparr>cust_id = ''cust-1'', cust_username = ''alice'', cust_password = digest ''pw-a'',
             cust_license_key = ''GG-0001-0001''\<rparr>"

definition dave :: customer where
  "dave = \<lparr>cust_id = ''cust-2'', cust_username = ''dave'', cust_password = digest ''pw-d'',
            cust_license_key = ''GG-0002-0002''\<rparr>"

definition bob :: panel_admin where
  "bob = \<lparr>adm_id = ''adm-1'', adm_license_key = ''GG-0001-0001'', adm_name = ''bob'',
           adm_role = ''admin'', adm_active = True, adm_token_hash = digest ''invite-bob''\<rparr>"

definition carol :: panel_admin where
  "carol = \<lparr>adm_id = ''adm-2'', adm_license_key = ''GG-0001-0001'', adm_name = ''carol'',
             adm_role = ''admin'', adm_active = False, adm_token_hash = digest ''invite-carol''\<rparr>"

definition ban1 :: ban where
  "ban1 = \<lparr>ban_license_key = ''GG-0001-0001'', ban_player_id = ''steam:110000100000001'',
            ban_reason = ''No reason'', ban_duration = ''P'', ban_ban_id = ''GG-1700000000000'',
            ban_created_at = 1700000000000, ban_expires_at = None, ban_banned_by = ''GhostGuard'',
            ban_evidence_url = None, ban_identifiers = []\<rparr>"

definition lic1 :: license where
  "lic1 = \<lparr>lic_id = ''1'', lic_license_key = ''GG-0001-0001'', lic_status = ''ACTIVE'',
            lic_expires_at = None, lic_hwid = None, lic_last_seen = None\<rparr>"

definition lic2 :: license where
  "lic2 = \<lparr>lic_id = ''2'', lic_license_key = ''GG-0002-0002'', lic_status = ''ACTIVE'',
            lic_expires_at = None, lic_hwid = Some ''HW-A'', lic_last_seen = None\<rparr>"

definition st1 :: state where
  "st1 = \<lparr>licenses = [lic1, lic2], customers = [alice, dave], panel_admins = [bob, carol],
          bans = [ban1],
          serverState = Map.empty, livePlayersByLicense = Map.empty,
          actionQueue = Map.empty, serverLogs = Map.empty\<rparr>"

text \<open>A stand-in for the keyed signature of an assertion.\<close>

definition sign0 :: "assertion \<Rightarrow> string" where
  "sign0 p = ''hmac:'' @ as_license_key p @ '':'' @ as_status p @ '':'' @ showInt (as_issued_at p)"



text \<open>A stand-in for the parsing of date strings: it knows one timestamp.\<close>

definition parseDate0 :: "string \<Rightarrow> int option" where
  "parseDate0 v = (if v = ''2030-01-01T00:00:00.000Z'' then Some 1893456000000 else None)"

definition banRequest0 :: ban_request where
  "banRequest0 = \<lparr>req_license_key = Some ''GG-0001-0001'', req_player = Some ''steam:110000100000002'',
                   req_reason = None, req_duration = Some ''2h'', req_ban_id = None,
                   req_evidence_url = None, req_banned_by = None, req_identifiers = None,
                   req_created_at = None, req_expires_at = None\<rparr>"




section \<open>Properties\<close>

subsection \<open>Auxiliary facts\<close>

lemma entries_upd: "entries (m(k \<mapsto> l)) k = l"
  by (simp add: entries_def)

lemma filter_key_distinct:
  "distinct (map f xs) \<Longrightarrow> x \<in> set xs \<Longrightarrow> filter (\<lambda>y. f y = f x) xs = [x]"
proof (induction xs)
  case Nil
  then show ?case by simp
next
  case (Cons a xs)
  show ?case
  proof (cases "a = x")
    case True
    have "filter (\<lambda>y. f y = f x) xs = []"
      using Cons.prems True by (force simp: filter_empty_conv image_iff)
    then show ?thesis using True by simp
  next
    case False
    then have "x \<in> set xs" using Cons.prems by simp
    moreover have "f a \<noteq> f x" using Cons.prems \<open>x \<in> set xs\<close> by auto
    ultimately show ?thesis using Cons by simp
  qed
qed

lemma single_row_distinct:
  "distinct (map f xs) \<Longrightarrow> x \<in> set xs \<Longrightarrow> single_row (filter (\<lambda>y. f y = f x) xs) = Some x"
  by (simp add: filter_key_distinct single_row_def)

lemma single_row_none:
  "\<forall>y \<in> set xs. \<not> P y \<Longrightarrow> single_row (filter P xs) = None"
proof -
  assume "\<forall>y \<in> set xs. \<not> P y"
  then have "filter P xs = []" by (simp add: filter_empty_conv)
  then show ?thesis by (simp add: single_row_def)
qed

subsection \<open>Action queue\<close>

lemma actionQueue_pushAction:
  "entries (actionQueue (pushAction s k a)) k =
     (if length (entries (actionQueue s) k) \<ge> 200 then drop 50 (entries (actionQueue s) k @ [a])
      else entries (actionQueue s) k @ [a])"
  by (simp add: pushAction_def Let_def entries_upd)








subsection \<open>Log ring buffer\<close>



text \<open>For a key inherited from the prototype the call throws, as long as no own property exists.\<close>

lemma pushServerLog_inherited:
  "k \<in> set objectPrototypeNames \<Longrightarrow> serverLogs s k = None \<Longrightarrow> pushServerLog s k e = Inl TypeError"
  by (simp add: pushServerLog_def)






subsection \<open>Liveness\<close>

text \<open>
  C9. A heartbeat with a license key whose \<open>players\<close> value is not an array (absent, a
  string, an object, ...) succeeds, replaces the tenant's roster by the empty sequence
  and records a player count of 0.
\<close>

theorem C9_heartbeat_players_not_array:
  assumes "key \<noteq> []" and "\<not> isArray players"
  shows "fst (serverHeartbeat now s (Some key) players version uptime)
           = \<lparr>res_status = 200, res_success = True, res_error = None\<rparr>
       \<and> livePlayersByLicense (snd (serverHeartbeat now s (Some key) players version uptime)) key = Some []
       \<and> serverState (snd (serverHeartbeat now s (Some key) players version uptime)) key
           = Some \<lparr>live_last_seen = now, live_players = 0,
                   live_uptime = (case uptime of None \<Rightarrow> 0 | Some u \<Rightarrow> u),
                   live_version = (if truthy version then version else None)\<rparr>"
  using assms by (simp add: serverHeartbeat_def truthy_def orElse_def Let_def entries_def)

theorem C9_witness:
  "fst (serverHeartbeat 1700000000000 st0 (Some ''GG-0001-0001'') (Some (JStr ''nobody'')) None None)
      = \<lparr>res_status = 200, res_success = True, res_error = None\<rparr>
   \<and> livePlayersByLicense
        (snd (serverHeartbeat 1700000000000 st0 (Some ''GG-0001-0001'') (Some (JStr ''nobody'')) None None))
        ''GG-0001-0001'' = Some []
   \<and> serverState
        (snd (serverHeartbeat 1700000000000 st0 (Some ''GG-0001-0001'') (Some (JStr ''nobody'')) None None))
        ''GG-0001-0001''
      = Some \<lparr>live_last_seen = 1700000000000, live_players = 0, live_uptime = 0, live_version = None\<rparr>"
proof -
  have h1: "''GG-0001-0001'' \<noteq> []"
    by simp
  have h2: "\<not> isArray (Some (JStr ''nobody''))"
    by (simp add: isArray_def)
  from C9_heartbeat_players_not_array [OF h1 h2, of 1700000000000 st0 None None] show ?thesis
    by (simp add: truthy_def)
qed

subsection \<open>Lifting a ban\<close>

text \<open>
  C10. On the authorized path, when the requester's token resolves to an identity and no
  ban has the given ban id, the call answers \<^verbatim>\<open>{ success: false }\<close> with no error code
  (status 200) and leaves the whole state as it was: no ban is touched and no command
  is enqueued.
\<close>

theorem C10_lift_unknown_ban:
  assumes "fst (resolvePanelIdentity sha256 s (bearerToken authorization)) = Some identity"
    and "\<forall>b \<in> set (bans s). ban_ban_id b \<noteq> banId"
  shows "serverUnban sha256 now s banId authorization
           = (\<lparr>res_status = 200, res_success = False, res_error = None\<rparr>, s)"
proof -
  have "single_row (filter (\<lambda>b. ban_ban_id b = banId) (bans s)) = None"
    using assms(2) by (intro single_row_none) simp
  then show ?thesis
    using assms(1) by (simp add: serverUnban_def)
qed

theorem C10_witness:
  "serverUnban digest 1700000000000 st1 ''GG-404'' (Some ''Bearer cust-1'')
     = (\<lparr>res_status = 200, res_success = False, res_error = None\<rparr>, st1)"
proof -
  have h1: "fst (resolvePanelIdentity digest st1 (bearerToken (Some ''Bearer cust-1''))) = Some (Customer alice)"
    by (simp add: resolvePanelIdentity_def bearerToken_def orElse_def st1_def alice_def dave_def single_row_def)
  have h2: "\<forall>b \<in> set (bans st1). ban_ban_id b \<noteq> ''GG-404''"
    by (simp add: st1_def ban1_def)
  from C10_lift_unknown_ban [OF h1 h2] show ?thesis .
qed

lemma map_update_distinct:
  "distinct (map f xs) \<Longrightarrow> b \<in> set xs \<Longrightarrow>
   map (\<lambda>x. if f x = f b then g x else x) xs = map (\<lambda>x. if x = b then g b else x) xs"
  by (rule map_cong) (auto simp: distinct_map inj_on_def)

lemma pushAction_other:
  "k' \<noteq> k \<Longrightarrow> actionQueue (pushAction s k a) k' = actionQueue s k'"
  by (simp add: pushAction_def Let_def)

lemma pushAction_tables:
  "licenses (pushAction s k a) = licenses s"
  "customers (pushAction s k a) = customers s"
  "panel_admins (pushAction s k a) = panel_admins s"
  "bans (pushAction s k a) = bans s"
  "serverState (pushAction s k a) = serverState s"
  "livePlayersByLicense (pushAction s k a) = livePlayersByLicense s"
  "serverLogs (pushAction s k a) = serverLogs s"
  by (simp_all add: pushAction_def Let_def)

lemma serverUnban_found:
  assumes id: "fst (resolvePanelIdentity sha256 s (bearerToken authorization)) = Some identity"
    and dist: "distinct (map ban_ban_id (bans s))"
    and b: "b \<in> set (bans s)"
  shows "serverUnban sha256 now s (ban_ban_id b) authorization =
          (if ban_license_key b \<noteq> identity_license_key identity
           then (\<lparr>res_status = 403, res_success = False, res_error = Some ''FORBIDDEN''\<rparr>, s)
           else (\<lparr>res_status = 200, res_success = True, res_error = None\<rparr>,
                 pushAction
                   (s\<lparr>bans := map (\<lambda>x. if x = b then b\<lparr>ban_expires_at := Some now\<rparr> else x) (bans s)\<rparr>)
                   (ban_license_key b) (unbanAction now (ban_ban_id b))))"
proof -
  have sr: "single_row (filter (\<lambda>x. ban_ban_id x = ban_ban_id b) (bans s)) = Some b"
    using dist b by (rule single_row_distinct)
  have upd: "map (\<lambda>x. if ban_ban_id x = ban_ban_id b then x\<lparr>ban_expires_at := Some now\<rparr> else x) (bans s)
                  = map (\<lambda>x. if x = b then b\<lparr>ban_expires_at := Some now\<rparr> else x) (bans s)"
    using dist b by (rule map_update_distinct)
  show ?thesis
    by (simp add: serverUnban_def Let_def id sr upd)
qed

text \<open>
  C3. Lifting a ban on the authorized path. When the requester's token resolves to no
  identity, the answer is 401 UNAUTHORIZED and the state is unchanged. When it resolves
  and the ban with the given id (ban ids being unique) belongs to another license key, the
  answer is 403 FORBIDDEN and the state is unchanged, so nothing is enqueued. When the
  license keys match, the answer is success, that ban and no other gets
  \<open>expires_at = now\<close> (the row stays in the table), exactly one command, of type
  \<^verbatim>\<open>unban\<close>, is pushed onto the queue of the ban's tenant (by \<^verbatim>\<open>pushAction\<close>, with its
  trim), and no other queue or table changes.
\<close>

theorem C3_lift_authorized:
  "(fst (resolvePanelIdentity sha256 s (bearerToken authorization)) = None \<longrightarrow>
      serverUnban sha256 now s banId authorization
        = (\<lparr>res_status = 401, res_success = False, res_error = Some ''UNAUTHORIZED''\<rparr>, s))
   \<and> (fst (resolvePanelIdentity sha256 s (bearerToken authorization)) = Some identity
        \<and> distinct (map ban_ban_id (bans s)) \<and> b \<in> set (bans s) \<and> ban_ban_id b = banId
        \<and> ban_license_key b \<noteq> identity_license_key identity \<longrightarrow>
      serverUnban sha256 now s banId authorization
        = (\<lparr>res_status = 403, res_success = False, res_error = Some ''FORBIDDEN''\<rparr>, s))
   \<and> (fst (resolvePanelIdentity sha256 s (bearerToken authorization)) = Some identity
        \<and> distinct (map ban_ban_id (bans s)) \<and> b \<in> set (bans s) \<and> ban_ban_id b = banId
        \<and> ban_license_key b = identity_license_key identity \<longrightarrow>
      fst (serverUnban sha256 now s banId authorization)
        = \<lparr>res_status = 200, res_success = True, res_error = None\<rparr>
      \<and> bans (snd (serverUnban sha256 now s banId authorization))
        = map (\<lambda>x. if x = b then b\<lparr>ban_expires_at := Some now\<rparr> else x) (bans s)
      \<and> entries (actionQueue (snd (serverUnban sha256 now s banId authorization))) (ban_license_key b)
        = (if 200 \<le> length (entries (actionQueue s) (ban_license_key b))
           then drop 50 (entries (actionQueue s) (ban_license_key b) @ [unbanAction now banId])
           else entries (actionQueue s) (ban_license_key b) @ [unbanAction now banId])
      \<and> act_type (unbanAction now banId) = ''unban''
      \<and> (\<forall>k. k \<noteq> ban_license_key b \<longrightarrow>
            actionQueue (snd (serverUnban sha256 now s banId authorization)) k = actionQueue s k)
      \<and> licenses (snd (serverUnban sha256 now s banId authorization)) = licenses s
      \<and> customers (snd (serverUnban sha256 now s banId authorization)) = customers s
      \<and> panel_admins (snd (serverUnban sha256 now s banId authorization)) = panel_admins s)"
proof (intro conjI impI)
  assume "fst (resolvePanelIdentity sha256 s (bearerToken authorization)) = None"
  then show "serverUnban sha256 now s banId authorization
        = (\<lparr>res_status = 401, res_success = False, res_error = Some ''UNAUTHORIZED''\<rparr>, s)"
    by (simp add: serverUnban_def)
next
  assume a: "fst (resolvePanelIdentity sha256 s (bearerToken authorization)) = Some identity
        \<and> distinct (map ban_ban_id (bans s)) \<and> b \<in> set (bans s) \<and> ban_ban_id b = banId
        \<and> ban_license_key b \<noteq> identity_license_key identity"
  then show "serverUnban sha256 now s banId authorization
        = (\<lparr>res_status = 403, res_success = False, res_error = Some ''FORBIDDEN''\<rparr>, s)"
    using serverUnban_found [of sha256 s authorization identity b now] by auto
next
  assume a: "fst (resolvePanelIdentity sha256 s (bearerToken authorization)) = Some identity
        \<and> distinct (map ban_ban_id (bans s)) \<and> b \<in> set (bans s) \<and> ban_ban_id b = banId
        \<and> ban_license_key b = identity_license_key identity"
  then have eq: "serverUnban sha256 now s banId authorization =
      (\<lparr>res_status = 200, res_success = True, res_error = None\<rparr>,
       pushAction (s\<lparr>bans := map (\<lambda>x. if x = b then b\<lparr>ban_expires_at := Some now\<rparr> else x) (bans s)\<rparr>)
         (ban_license_key b) (unbanAction now banId))"
    using serverUnban_found [of sha256 s authorization identity b now] by auto
  show "fst (serverUnban sha256 now s banId authorization)
        = \<lparr>res_status = 200, res_success = True, res_error = None\<rparr>"
    by (simp add: eq)
  show "bans (snd (serverUnban sha256 now s banId authorization))
        = map (\<lambda>x. if x = b then b\<lparr>ban_expires_at := Some now\<rparr> else x) (bans s)"
    by (simp add: eq pushAction_tables)
  show "entries (actionQueue (snd (serverUnban sha256 now s banId authorization))) (ban_license_key b)
        = (if 200 \<le> length (entries (actionQueue s) (ban_license_key b))
           then drop 50 (entries (actionQueue s) (ban_license_key b) @ [unbanAction now banId])
           else entries (actionQueue s) (ban_license_key b) @ [unbanAction now banId])"
    by (simp add: eq actionQueue_pushAction)
  show "act_type (unbanAction now banId) = ''unban''"
    by (simp add: unbanAction_def)
  show "licenses (snd (serverUnban sha256 now s banId authorization)) = licenses s"
    by (simp add: eq pushAction_tables)
  show "customers (snd (serverUnban sha256 now s banId authorization)) = customers s"
    by (simp add: eq pushAction_tables)
  show "panel_admins (snd (serverUnban sha256 now s banId authorization)) = panel_admins s"
    by (simp add: eq pushAction_tables)
  show "\<forall>k. k \<noteq> ban_license_key b \<longrightarrow>
            actionQueue (snd (serverUnban sha256 now s banId authorization)) k = actionQueue s k"
    by (simp add: eq pushAction_other)
qed

theorem C3_witness:
  "serverUnban digest 1700000005000 st1 ''GG-1700000000000'' None
     = (\<lparr>res_status = 401, res_success = False, res_error = Some ''UNAUTHORIZED''\<rparr>, st1)
   \<and> serverUnban digest 1700000005000 st1 ''GG-1700000000000'' (Some ''Bearer cust-2'')
     = (\<lparr>res_status = 403, res_success = False, res_error = Some ''FORBIDDEN''\<rparr>, st1)
   \<and> fst (serverUnban digest 1700000005000 st1 ''GG-1700000000000'' (Some ''Bearer invite-bob''))
     = \<lparr>res_status = 200, res_success = True, res_error = None\<rparr>
   \<and> bans (snd (serverUnban digest 1700000005000 st1 ''GG-1700000000000'' (Some ''Bearer invite-bob'')))
     = [ban1\<lparr>ban_expires_at := Some 1700000005000\<rparr>]
   \<and> entries (actionQueue (snd (serverUnban digest 1700000005000 st1 ''GG-1700000000000'' (Some ''Bearer invite-bob''))))
       ''GG-0001-0001''
     = [unbanAction 1700000005000 ''GG-1700000000000'']"
proof -
  have r0: "fst (resolvePanelIdentity digest st1 (bearerToken None)) = None"
    by (simp add: resolvePanelIdentity_def bearerToken_def orElse_def)
  have r1: "fst (resolvePanelIdentity digest st1 (bearerToken (Some ''Bearer cust-2''))) = Some (Customer dave)"
    by (simp add: resolvePanelIdentity_def bearerToken_def orElse_def st1_def alice_def dave_def single_row_def)
  have r2: "fst (resolvePanelIdentity digest st1 (bearerToken (Some ''Bearer invite-bob''))) = Some (Admin bob)"
    by (simp add: resolvePanelIdentity_def bearerToken_def orElse_def st1_def alice_def dave_def
        bob_def carol_def digest_def single_row_def Let_def)
  have b: "distinct (map ban_ban_id (bans st1)) \<and> ban1 \<in> set (bans st1) \<and> ban_ban_id ban1 = ''GG-1700000000000''"
    by (simp add: st1_def ban1_def)
  have k1: "ban_license_key ban1 \<noteq> identity_license_key (Customer dave)"
    by (simp add: ban1_def dave_def)
  have k2: "ban_license_key ban1 = identity_license_key (Admin bob)"
    by (simp add: ban1_def bob_def)
  have q: "entries (actionQueue st1) ''GG-0001-0001'' = []" "ban_license_key ban1 = ''GG-0001-0001''"
     "bans st1 = [ban1]"
    by (simp_all add: st1_def entries_def ban1_def)
  show ?thesis
    using C3_lift_authorized [of digest st1 None 1700000005000 "''GG-1700000000000''" "Customer dave" ban1]
      C3_lift_authorized [of digest st1 "Some ''Bearer cust-2''" 1700000005000 "''GG-1700000000000''" "Customer dave" ban1]
      C3_lift_authorized [of digest st1 "Some ''Bearer invite-bob''" 1700000005000 "''GG-1700000000000''" "Admin bob" ban1]
      r0 r1 r2 b k1 k2 q
    by simp
qed

subsection \<open>Identity resolution\<close>

lemma single_row_active_admin:
  assumes "distinct (map adm_token_hash admins)" and "admin \<in> set admins" and "adm_active admin"
  shows "single_row (filter (\<lambda>a. adm_token_hash a = adm_token_hash admin \<and> adm_active a) admins) = Some admin"
proof -
  have "filter (\<lambda>a. adm_token_hash a = adm_token_hash admin \<and> adm_active a) admins
          = filter adm_active (filter (\<lambda>a. adm_token_hash a = adm_token_hash admin) admins)"
    by (simp add: conj_commute)
  also have "\<dots> = [admin]"
    using assms by (simp add: filter_key_distinct)
  finally show ?thesis
    by (simp add: single_row_def)
qed

text \<open>
  C4. Resolution order. An absent or empty token resolves to nothing and sends no query.
  Otherwise a token that is the id of a customer row (ids being unique) resolves to that
  customer, with the row's license key, whatever the admin table holds. Otherwise a token
  whose digest is the \<^verbatim>\<open>token_hash\<close> of an active admin row (hashes being unique) resolves
  to that admin, with the row's license key. A token that matches no customer and only
  inactive admin rows resolves to nothing.
\<close>

theorem C4_identity_resolution:
  "resolvePanelIdentity sha256 s None = (None, [])
   \<and> resolvePanelIdentity sha256 s (Some []) = (None, [])
   \<and> (t \<noteq> [] \<and> distinct (map cust_id (customers s)) \<and> user \<in> set (customers s) \<and> cust_id user = t \<longrightarrow>
        fst (resolvePanelIdentity sha256 s (Some t)) = Some (Customer user)
        \<and> map_option identity_license_key (fst (resolvePanelIdentity sha256 s (Some t)))
            = Some (cust_license_key user))
   \<and> (t \<noteq> [] \<and> (\<forall>c \<in> set (customers s). cust_id c \<noteq> t)
        \<and> distinct (map adm_token_hash (panel_admins s)) \<and> admin \<in> set (panel_admins s)
        \<and> adm_token_hash admin = sha256 t \<and> adm_active admin \<longrightarrow>
        fst (resolvePanelIdentity sha256 s (Some t)) = Some (Admin admin)
        \<and> map_option identity_license_key (fst (resolvePanelIdentity sha256 s (Some t)))
            = Some (adm_license_key admin))
   \<and> (t \<noteq> [] \<and> (\<forall>c \<in> set (customers s). cust_id c \<noteq> t)
        \<and> (\<forall>a \<in> set (panel_admins s). adm_token_hash a = sha256 t \<longrightarrow> \<not> adm_active a) \<longrightarrow>
        fst (resolvePanelIdentity sha256 s (Some t)) = None)"
proof (intro conjI impI)
  show "resolvePanelIdentity sha256 s None = (None, [])"
    by (simp add: resolvePanelIdentity_def)
  show "resolvePanelIdentity sha256 s (Some []) = (None, [])"
    by (simp add: resolvePanelIdentity_def)
next
  assume a: "t \<noteq> [] \<and> distinct (map cust_id (customers s)) \<and> user \<in> set (customers s) \<and> cust_id user = t"
  then have "single_row (filter (\<lambda>c. cust_id c = t) (customers s)) = Some user"
    using single_row_distinct [of cust_id "customers s" user] by auto
  with a show r: "fst (resolvePanelIdentity sha256 s (Some t)) = Some (Customer user)"
    by (simp add: resolvePanelIdentity_def)
  show "map_option identity_license_key (fst (resolvePanelIdentity sha256 s (Some t)))
            = Some (cust_license_key user)"
    by (simp add: r)
next
  assume a: "t \<noteq> [] \<and> (\<forall>c \<in> set (customers s). cust_id c \<noteq> t)
        \<and> distinct (map adm_token_hash (panel_admins s)) \<and> admin \<in> set (panel_admins s)
        \<and> adm_token_hash admin = sha256 t \<and> adm_active admin"
  then have c: "single_row (filter (\<lambda>c. cust_id c = t) (customers s)) = None"
    by (intro single_row_none) simp
  have "single_row (filter (\<lambda>a. adm_token_hash a = sha256 t \<and> adm_active a) (panel_admins s)) = Some admin"
    using a single_row_active_admin [of "panel_admins s" admin] by auto
  with a c show r: "fst (resolvePanelIdentity sha256 s (Some t)) = Some (Admin admin)"
    by (simp add: resolvePanelIdentity_def Let_def)
  show "map_option identity_license_key (fst (resolvePanelIdentity sha256 s (Some t)))
            = Some (adm_license_key admin)"
    by (simp add: r)
next
  assume a: "t \<noteq> [] \<and> (\<forall>c \<in> set (customers s). cust_id c \<noteq> t)
        \<and> (\<forall>a \<in> set (panel_admins s). adm_token_hash a = sha256 t \<longrightarrow> \<not> adm_active a)"
  then have c: "single_row (filter (\<lambda>c. cust_id c = t) (customers s)) = None"
    by (intro single_row_none) simp
  have "single_row (filter (\<lambda>a. adm_token_hash a = sha256 t \<and> adm_active a) (panel_admins s)) = None"
    using a by (intro single_row_none) simp
  with a c show "fst (resolvePanelIdentity sha256 s (Some t)) = None"
    by (simp add: resolvePanelIdentity_def Let_def)
qed

theorem C4_witness:
  "resolvePanelIdentity digest st1 None = (None, [])
   \<and> fst (resolvePanelIdentity digest st1 (Some ''cust-1'')) = Some (Customer alice)
   \<and> fst (resolvePanelIdentity digest st1 (Some ''invite-bob'')) = Some (Admin bob)
   \<and> fst (resolvePanelIdentity digest st1 (Some ''invite-carol'')) = None"
proof -
  have c: "distinct (map cust_id (customers st1)) \<and> alice \<in> set (customers st1) \<and> cust_id alice = ''cust-1''"
    by (simp add: st1_def alice_def dave_def)
  have nb: "\<forall>c \<in> set (customers st1). cust_id c \<noteq> ''invite-bob''"
    and nc: "\<forall>c \<in> set (customers st1). cust_id c \<noteq> ''invite-carol''"
    by (simp_all add: st1_def alice_def dave_def)
  have b: "distinct (map adm_token_hash (panel_admins st1)) \<and> bob \<in> set (panel_admins st1)
            \<and> adm_token_hash bob = digest ''invite-bob'' \<and> adm_active bob"
    by (simp add: st1_def bob_def carol_def digest_def)
  have i: "\<forall>a \<in> set (panel_admins st1). adm_token_hash a = digest ''invite-carol'' \<longrightarrow> \<not> adm_active a"
    by (simp add: st1_def bob_def carol_def digest_def)
  show ?thesis
    using C4_identity_resolution [of digest st1 "''cust-1''" alice bob]
      C4_identity_resolution [of digest st1 "''invite-bob''" alice bob]
      C4_identity_resolution [of digest st1 "''invite-carol''" alice bob]
      c nb nc b i
    by simp
qed

subsection \<open>License verification\<close>

lemma single_row_SomeD: "single_row xs = Some x \<Longrightarrow> xs = [x]"
  by (auto simp: single_row_def split: list.splits)

lemma update_licenses_single_row:
  assumes "single_row (filter (\<lambda>l. lic_license_key l = key) (licenses s)) = Some lic"
    and "\<And>l. lic_license_key (f l) = lic_license_key l"
  shows "single_row (filter (\<lambda>l. lic_license_key l = key) (licenses (update_licenses (lic_id lic) f s)))
           = Some (f lic)"
proof -
  let ?g = "\<lambda>l. if lic_id l = lic_id lic then f l else l"
  have keep: "(\<lambda>l. lic_license_key l = key) \<circ> ?g = (\<lambda>l. lic_license_key l = key)"
    using assms(2) by (auto simp: fun_eq_iff)
  have "filter (\<lambda>l. lic_license_key l = key) (map ?g (licenses s))
          = map ?g (filter (\<lambda>l. lic_license_key l = key) (licenses s))"
    by (simp only: filter_map keep)
  also have "\<dots> = [f lic]"
    using single_row_SomeD [OF assms(1)] by simp
  finally show ?thesis
    by (simp add: update_licenses_def single_row_def)
qed

lemma licenseVerify_found:
  assumes "key \<noteq> []"
    and "single_row (filter (\<lambda>l. lic_license_key l = key) (licenses s)) = Some lic"
  shows "licenseVerify sign now s (Some key) hwid =
     (if lic_status lic \<noteq> ''ACTIVE'' then (Invalid 200 (lic_status lic), s)
      else if expired lic now then (Invalid 200 ''EXPIRED'', s)
      else if truthy (lic_hwid lic) \<and> truthy hwid \<and> lic_hwid lic \<noteq> hwid
        then (Invalid 200 ''HWID_MISMATCH'', s)
      else (Valid \<lparr>as_license_key = key, as_status = lic_status lic,
                   as_expires_at = lic_expires_at lic, as_issued_at = now\<rparr>
                  (sign \<lparr>as_license_key = key, as_status = lic_status lic,
                   as_expires_at = lic_expires_at lic, as_issued_at = now\<rparr>),
            update_licenses (lic_id lic) (\<lambda>l. l\<lparr>lic_last_seen := Some now\<rparr>)
              (if \<not> truthy (lic_hwid lic) \<and> truthy hwid
               then update_licenses (lic_id lic) (\<lambda>l. l\<lparr>lic_hwid := hwid\<rparr>) s else s)))"
  using assms by (simp add: licenseVerify_def Let_def)

lemma licenseVerify_valid_only_if:
  assumes "fst (licenseVerify sign now s license_key hwid) = Valid p sg"
  shows "\<exists>lic. single_row (filter (\<lambda>l. lic_license_key l = orElse license_key []) (licenses s)) = Some lic
           \<and> lic_status lic = ''ACTIVE'' \<and> \<not> expired lic now
           \<and> (\<not> truthy (lic_hwid lic) \<or> \<not> truthy hwid \<or> lic_hwid lic = hwid)"
  using assms
  by (auto simp: licenseVerify_def Let_def orElse_def split: option.splits if_splits)

text \<open>
  C1, as amended. For a license that is the one row with its (non-empty) key, ACTIVE, not
  expired and without a bound hwid, a verify call presenting a non-empty hwid reports
  valid and writes that hwid (and \<open>last_seen\<close>) to the row; any later verify call on that
  license, still not expired, presenting a different non-empty hwid answers
  \<^verbatim>\<open>HWID_MISMATCH\<close> and changes nothing. A verify call reports valid only if the license
  is found, ACTIVE, not expired, and its hwid is null or empty, or no hwid is presented,
  or the presented hwid equals the bound one.
\<close>

theorem C1_hwid_binding:
  assumes "distinct (map lic_license_key (licenses s))" and "lic \<in> set (licenses s)"
    and "lic_license_key lic \<noteq> []" and "lic_status lic = ''ACTIVE''" and "\<not> expired lic now"
    and "\<not> truthy (lic_hwid lic)" and "h \<noteq> []"
  shows "(\<exists>p sg. fst (licenseVerify sign now s (Some (lic_license_key lic)) (Some h)) = Valid p sg)
       \<and> single_row (filter (\<lambda>l. lic_license_key l = lic_license_key lic)
            (licenses (snd (licenseVerify sign now s (Some (lic_license_key lic)) (Some h)))))
           = Some (lic\<lparr>lic_hwid := Some h, lic_last_seen := Some now\<rparr>)
       \<and> (\<forall>now' h'. \<not> expired lic now' \<and> h' \<noteq> [] \<and> h' \<noteq> h \<longrightarrow>
             licenseVerify sign now' (snd (licenseVerify sign now s (Some (lic_license_key lic)) (Some h)))
                 (Some (lic_license_key lic)) (Some h')
               = (Invalid 200 ''HWID_MISMATCH'',
                  snd (licenseVerify sign now s (Some (lic_license_key lic)) (Some h))))
       \<and> (\<forall>s0 t license_key hwid p sg.
             fst (licenseVerify sign t s0 license_key hwid) = Valid p sg \<longrightarrow>
             (\<exists>l. single_row (filter (\<lambda>x. lic_license_key x = orElse license_key []) (licenses s0)) = Some l
                \<and> lic_status l = ''ACTIVE'' \<and> \<not> expired l t
                \<and> (\<not> truthy (lic_hwid l) \<or> \<not> truthy hwid \<or> lic_hwid l = hwid)))"
proof -
  let ?key = "lic_license_key lic"
  let ?s1 = "snd (licenseVerify sign now s (Some ?key) (Some h))"
  let ?lic1 = "lic\<lparr>lic_hwid := Some h, lic_last_seen := Some now\<rparr>"
  have found: "single_row (filter (\<lambda>l. lic_license_key l = ?key) (licenses s)) = Some lic"
    using assms(1,2) by (rule single_row_distinct)
  have first: "licenseVerify sign now s (Some ?key) (Some h) =
      (Valid \<lparr>as_license_key = ?key, as_status = lic_status lic,
              as_expires_at = lic_expires_at lic, as_issued_at = now\<rparr>
             (sign \<lparr>as_license_key = ?key, as_status = lic_status lic,
              as_expires_at = lic_expires_at lic, as_issued_at = now\<rparr>),
       update_licenses (lic_id lic) (\<lambda>l. l\<lparr>lic_last_seen := Some now\<rparr>)
         (update_licenses (lic_id lic) (\<lambda>l. l\<lparr>lic_hwid := Some h\<rparr>) s))"
    using assms by (simp add: licenseVerify_found [OF assms(3) found] truthy_def)
  have bound: "single_row (filter (\<lambda>l. lic_license_key l = ?key)
                (licenses (update_licenses (lic_id lic) (\<lambda>l. l\<lparr>lic_hwid := Some h\<rparr>) s)))
               = Some (lic\<lparr>lic_hwid := Some h\<rparr>)"
    using found by (rule update_licenses_single_row) simp
  have "single_row (filter (\<lambda>l. lic_license_key l = ?key)
           (licenses (update_licenses (lic_id (lic\<lparr>lic_hwid := Some h\<rparr>)) (\<lambda>l. l\<lparr>lic_last_seen := Some now\<rparr>)
              (update_licenses (lic_id lic) (\<lambda>l. l\<lparr>lic_hwid := Some h\<rparr>) s))))
         = Some (lic\<lparr>lic_hwid := Some h\<rparr>\<lparr>lic_last_seen := Some now\<rparr>)"
    using bound by (rule update_licenses_single_row) simp
  then have row: "single_row (filter (\<lambda>l. lic_license_key l = ?key) (licenses ?s1)) = Some ?lic1"
    by (simp add: first)
  have later: "\<forall>now' h'. \<not> expired lic now' \<and> h' \<noteq> [] \<and> h' \<noteq> h \<longrightarrow>
         licenseVerify sign now' ?s1 (Some ?key) (Some h') = (Invalid 200 ''HWID_MISMATCH'', ?s1)"
    using assms(4,7)
    by (simp add: licenseVerify_found [OF assms(3) row] truthy_def expired_def)
  have valid: "\<exists>p sg. fst (licenseVerify sign now s (Some ?key) (Some h)) = Valid p sg"
    by (simp add: first)
  show ?thesis
    using valid row later licenseVerify_valid_only_if [of sign] by blast
qed

theorem C1_witness:
  "(\<exists>p sg. fst (licenseVerify sign0 1700000000000 st1 (Some (lic_license_key lic1)) (Some ''HW-1'')) = Valid p sg)
   \<and> single_row (filter (\<lambda>l. lic_license_key l = lic_license_key lic1)
        (licenses (snd (licenseVerify sign0 1700000000000 st1 (Some (lic_license_key lic1)) (Some ''HW-1'')))))
       = Some (lic1\<lparr>lic_hwid := Some ''HW-1'', lic_last_seen := Some 1700000000000\<rparr>)
   \<and> licenseVerify sign0 1700000060000
        (snd (licenseVerify sign0 1700000000000 st1 (Some (lic_license_key lic1)) (Some ''HW-1'')))
        (Some (lic_license_key lic1)) (Some ''HW-2'')
       = (Invalid 200 ''HWID_MISMATCH'',
          snd (licenseVerify sign0 1700000000000 st1 (Some (lic_license_key lic1)) (Some ''HW-1'')))"
proof -
  have h1: "distinct (map lic_license_key (licenses st1))"
    by (simp add: st1_def lic1_def lic2_def)
  have h2: "lic1 \<in> set (licenses st1)"
    by (simp add: st1_def)
  have h3: "lic_license_key lic1 \<noteq> []" and h4: "lic_status lic1 = ''ACTIVE''"
    and h5: "\<not> expired lic1 1700000000000" and h6: "\<not> truthy (lic_hwid lic1)"
    and h7: "''HW-1'' \<noteq> []"
    by (simp_all add: lic1_def expired_def truthy_def)
  have later: "\<not> expired lic1 1700000060000 \<and> ''HW-2'' \<noteq> [] \<and> ''HW-2'' \<noteq> ''HW-1''"
    by (simp add: lic1_def expired_def)
  from C1_hwid_binding [OF h1 h2 h3 h4 h5 h6 h7, of sign0] later show ?thesis
    by blast
qed

text \<open>
  The claim as first stated fails: a license with a bound hwid is reported valid to a
  call that presents no hwid (the mismatch test is guarded by \<^verbatim>\<open>hwid &&\<close>).
\<close>

theorem C1_counterexample:
  "fst (licenseVerify sign0 1700000000000 st1 (Some ''GG-0002-0002'') None)
     = Valid \<lparr>as_license_key = ''GG-0002-0002'', as_status = ''ACTIVE'', as_expires_at = None,
              as_issued_at = 1700000000000\<rparr>
             (sign0 \<lparr>as_license_key = ''GG-0002-0002'', as_status = ''ACTIVE'', as_expires_at = None,
              as_issued_at = 1700000000000\<rparr>)
   \<and> single_row (filter (\<lambda>l. lic_license_key l = ''GG-0002-0002'') (licenses st1)) = Some lic2
   \<and> lic_hwid lic2 = Some ''HW-A''
   \<and> lic_hwid lic2 \<noteq> None"
  by (simp add: licenseVerify_def st1_def lic1_def lic2_def single_row_def expired_def truthy_def Let_def)

subsection \<open>License issue\<close>













subsection \<open>Ban expiry\<close>

lemma orElse_idem: "orElse (Some (orElse d x)) x = orElse d x"
  by (simp add: orElse_def split: option.splits)

lemma computeExpiresAt_final_duration:
  "computeExpiresAt parseDate now (Some (orElse d ''P'')) e = computeExpiresAt parseDate now d e"
  by (simp add: computeExpiresAt_def orElse_idem)

lemma computeExpiresAt_2h:
  assumes "\<not> truthy e" and "- maxTime \<le> now + 7200000" and "now + 7200000 \<le> maxTime"
  shows "computeExpiresAt parseDate now (Some ''2h'') e = Inr (Some (now + 7200000))"
proof -
  have raw: "toLowerCase (trim (orElse (Some ''2h'') ''P'')) = ''2h''"
    by code_simp
  have m: "matchDuration ''2h'' = Some (2, CHR ''h'')"
    by code_simp
  show ?thesis
    using assms by (simp add: computeExpiresAt_def raw m timeClip_def toISOString_def)
qed

text \<open>White space around the duration is trimmed, the no-break space included.\<close>

lemma computeExpiresAt_2h_nbsp:
  assumes "\<not> truthy e" and "- maxTime \<le> now + 7200000" and "now + 7200000 \<le> maxTime"
  shows "computeExpiresAt parseDate now (Some (''2h'' @ [CHR 0xA0])) e = Inr (Some (now + 7200000))"
proof -
  have raw: "toLowerCase (trim (orElse (Some (''2h'' @ [CHR 0xA0])) ''P'')) = ''2h''"
    by code_simp
  have m: "matchDuration ''2h'' = Some (2, CHR ''h'')"
    by code_simp
  show ?thesis
    using assms
    by (simp only: computeExpiresAt_def raw m Let_def) (simp add: timeClip_def toISOString_def)
qed

lemma computeExpiresAt_permanent:
  assumes "\<not> truthy e" and "toLowerCase (trim d) \<in> {''p'', ''perm'', ''permanent''}"
  shows "computeExpiresAt parseDate now (Some d) e = Inr None"
proof (cases "d = []")
  case True
  then show ?thesis
    using assms(2) by (simp add: trim_def toLowerCase_def)
next
  case False
  then have "orElse (Some d) ''P'' = d"
    by (simp add: orElse_def)
  then show ?thesis
    using assms by (auto simp: computeExpiresAt_def Let_def)
qed

lemma computeExpiresAt_malformed:
  assumes "\<not> truthy e" and "matchDuration (toLowerCase (trim (orElse d ''P''))) = None"
  shows "computeExpiresAt parseDate now d e = Inr None"
  using assms by (simp add: computeExpiresAt_def Let_def)

lemma computeExpiresAt_explicit:
  assumes "truthy e"
  shows "computeExpiresAt parseDate now d e =
           (case timeClip (parseDate (orElse e [])) of None \<Rightarrow> Inl RangeError | Some t \<Rightarrow> Inr (Some t))"
  using assms by (simp add: computeExpiresAt_def toISOString_def split: option.splits)

lemma serverBan_stores:
  assumes "truthy (req_license_key r)" and "truthy (req_player r)" and "\<not> truthy (req_created_at r)"
    and "computeExpiresAt parseDate now (req_duration r) (req_expires_at r) = Inr x"
  shows "fst (serverBan parseDate now s r) = BanCreated (orElse (req_ban_id r) (''GG-'' @ showInt now))
       \<and> butlast (bans (snd (serverBan parseDate now s r))) = bans s
       \<and> length (bans (snd (serverBan parseDate now s r))) = Suc (length (bans s))
       \<and> ban_expires_at (last (bans (snd (serverBan parseDate now s r)))) = x"
  using assms
  by (simp add: serverBan_def Let_def computeExpiresAt_final_duration)

text \<open>
  C6. With no explicit \<open>expires_at\<close> (absent or empty): duration \<^verbatim>\<open>2h\<close> gives now plus
  7200000 ms; a duration that is \<^verbatim>\<open>p\<close>, \<^verbatim>\<open>perm\<close> or \<^verbatim>\<open>permanent\<close> after trimming and
  lowercasing gives null, and so does every duration that does not match
  digits-and-unit, \<^verbatim>\<open>garbage\<close> among them: a null result, not an error. With an
  explicit \<open>expires_at\<close> the result does not depend on the duration: it is the date read
  from \<open>expires_at\<close> (a RangeError when that is no date). The ban handler stores the
  computed value in the new row.
\<close>

theorem C6_ban_duration:
  "(\<not> truthy e \<and> - maxTime \<le> now + 7200000 \<and> now + 7200000 \<le> maxTime \<longrightarrow>
      computeExpiresAt parseDate now (Some ''2h'') e = Inr (Some (now + 7200000)))
   \<and> (\<not> truthy e \<and> toLowerCase (trim d) \<in> {''p'', ''perm'', ''permanent''} \<longrightarrow>
      computeExpiresAt parseDate now (Some d) e = Inr None)
   \<and> (\<not> truthy e \<longrightarrow>
      computeExpiresAt parseDate now (Some ''P'') e = Inr None
      \<and> computeExpiresAt parseDate now (Some ''perm'') e = Inr None
      \<and> computeExpiresAt parseDate now (Some ''permanent'') e = Inr None
      \<and> computeExpiresAt parseDate now (Some ''garbage'') e = Inr None)
   \<and> (\<not> truthy e \<and> matchDuration (toLowerCase (trim (orElse dur ''P''))) = None \<longrightarrow>
      computeExpiresAt parseDate now dur e = Inr None)
   \<and> (truthy e \<longrightarrow>
      computeExpiresAt parseDate now dur e = computeExpiresAt parseDate now dur' e
      \<and> computeExpiresAt parseDate now dur e =
          (case timeClip (parseDate (orElse e [])) of None \<Rightarrow> Inl RangeError | Some t \<Rightarrow> Inr (Some t)))
   \<and> (truthy (req_license_key r) \<and> truthy (req_player r) \<and> \<not> truthy (req_created_at r)
        \<and> computeExpiresAt parseDate now (req_duration r) (req_expires_at r) = Inr x \<longrightarrow>
      fst (serverBan parseDate now s r) = BanCreated (orElse (req_ban_id r) (''GG-'' @ showInt now))
      \<and> butlast (bans (snd (serverBan parseDate now s r))) = bans s
      \<and> length (bans (snd (serverBan parseDate now s r))) = Suc (length (bans s))
      \<and> ban_expires_at (last (bans (snd (serverBan parseDate now s r)))) = x)"
proof (intro conjI impI)
  assume "\<not> truthy e \<and> - maxTime \<le> now + 7200000 \<and> now + 7200000 \<le> maxTime"
  then show "computeExpiresAt parseDate now (Some ''2h'') e = Inr (Some (now + 7200000))"
    by (simp add: computeExpiresAt_2h)
next
  assume "\<not> truthy e \<and> toLowerCase (trim d) \<in> {''p'', ''perm'', ''permanent''}"
  then show "computeExpiresAt parseDate now (Some d) e = Inr None"
    by (simp add: computeExpiresAt_permanent)
next
  assume e: "\<not> truthy e"
  have p: "toLowerCase (trim ''P'') \<in> {''p'', ''perm'', ''permanent''}"
    "toLowerCase (trim ''perm'') \<in> {''p'', ''perm'', ''permanent''}"
    "toLowerCase (trim ''permanent'') \<in> {''p'', ''perm'', ''permanent''}"
    by code_simp+
  show "computeExpiresAt parseDate now (Some ''P'') e = Inr None"
    using e p(1) by (rule computeExpiresAt_permanent)
  show "computeExpiresAt parseDate now (Some ''perm'') e = Inr None"
    using e p(2) by (rule computeExpiresAt_permanent)
  show "computeExpiresAt parseDate now (Some ''permanent'') e = Inr None"
    using e p(3) by (rule computeExpiresAt_permanent)
  have "matchDuration (toLowerCase (trim (orElse (Some ''garbage'') ''P''))) = None"
    by code_simp
  with e show "computeExpiresAt parseDate now (Some ''garbage'') e = Inr None"
    by (rule computeExpiresAt_malformed)
next
  assume "\<not> truthy e \<and> matchDuration (toLowerCase (trim (orElse dur ''P''))) = None"
  then show "computeExpiresAt parseDate now dur e = Inr None"
    by (simp add: computeExpiresAt_malformed)
next
  assume e: "truthy e"
  show "computeExpiresAt parseDate now dur e = computeExpiresAt parseDate now dur' e"
    by (simp add: computeExpiresAt_explicit [OF e])
  show "computeExpiresAt parseDate now dur e =
          (case timeClip (parseDate (orElse e [])) of None \<Rightarrow> Inl RangeError | Some t \<Rightarrow> Inr (Some t))"
    using e by (rule computeExpiresAt_explicit)
next
  assume a: "truthy (req_license_key r) \<and> truthy (req_player r) \<and> \<not> truthy (req_created_at r)
        \<and> computeExpiresAt parseDate now (req_duration r) (req_expires_at r) = Inr x"
  show "fst (serverBan parseDate now s r) = BanCreated (orElse (req_ban_id r) (''GG-'' @ showInt now))"
    using a serverBan_stores [of r parseDate now x s] by blast
  show "butlast (bans (snd (serverBan parseDate now s r))) = bans s"
    using a serverBan_stores [of r parseDate now x s] by blast
  show "length (bans (snd (serverBan parseDate now s r))) = Suc (length (bans s))"
    using a serverBan_stores [of r parseDate now x s] by blast
  show "ban_expires_at (last (bans (snd (serverBan parseDate now s r)))) = x"
    using a serverBan_stores [of r parseDate now x s] by blast
qed

theorem C6_witness:
  "computeExpiresAt parseDate0 1700000005000 (Some ''2h'') None = Inr (Some 1700007205000)
   \<and> computeExpiresAt parseDate0 1700000005000 (Some '' Permanent '') None = Inr None
   \<and> computeExpiresAt parseDate0 1700000005000 (Some ''P'') None = Inr None
   \<and> computeExpiresAt parseDate0 1700000005000 (Some ''garbage'') None = Inr None
   \<and> computeExpiresAt parseDate0 1700000005000 (Some ''2h'') (Some ''2030-01-01T00:00:00.000Z'')
       = Inr (Some 1893456000000)
   \<and> computeExpiresAt parseDate0 1700000005000 (Some ''garbage'') (Some ''2030-01-01T00:00:00.000Z'')
       = Inr (Some 1893456000000)
   \<and> butlast (bans (snd (serverBan parseDate0 1700000005000 st1 banRequest0))) = bans st1
   \<and> ban_expires_at (last (bans (snd (serverBan parseDate0 1700000005000 st1 banRequest0))))
       = Some 1700007205000"
proof -
  note a = C6_ban_duration [of None 1700000005000 parseDate0 "'' Permanent ''" "Some ''garbage''"
      "Some ''garbage''" banRequest0 "Some 1700007205000" st1]
  note b = C6_ban_duration [of "Some ''2030-01-01T00:00:00.000Z''" 1700000005000 parseDate0 "''P''"
      "Some ''2h''" "Some ''garbage''" banRequest0 "Some 1700007205000" st1]
  have n: "\<not> truthy None" and t: "truthy (Some ''2030-01-01T00:00:00.000Z'')"
    by (simp_all add: truthy_def)
  have r1: "- maxTime \<le> (1700000005000 :: int) + 7200000 \<and> (1700000005000 :: int) + 7200000 \<le> maxTime"
    by (simp add: maxTime_def)
  have p: "toLowerCase (trim '' Permanent '') \<in> {''p'', ''perm'', ''permanent''}"
    by code_simp
  have c: "timeClip (parseDate0 (orElse (Some ''2030-01-01T00:00:00.000Z'') [])) = Some 1893456000000"
    by (simp add: timeClip_def parseDate0_def orElse_def maxTime_def)
  have "computeExpiresAt parseDate0 1700000005000 (Some ''2h'') None = Inr (Some (1700000005000 + 7200000))"
    using a n r1 by blast
  then have w1: "computeExpiresAt parseDate0 1700000005000 (Some ''2h'') None = Inr (Some 1700007205000)"
    by simp
  have w2: "computeExpiresAt parseDate0 1700000005000 (Some '' Permanent '') None = Inr None"
    using a n p by blast
  have w3: "computeExpiresAt parseDate0 1700000005000 (Some ''P'') None = Inr None"
    and w4: "computeExpiresAt parseDate0 1700000005000 (Some ''garbage'') None = Inr None"
    using a n by blast+
  have "computeExpiresAt parseDate0 1700000005000 (Some ''2h'') (Some ''2030-01-01T00:00:00.000Z'')
      = (case timeClip (parseDate0 (orElse (Some ''2030-01-01T00:00:00.000Z'') [])) of
           None \<Rightarrow> Inl RangeError | Some t \<Rightarrow> Inr (Some t))"
    using b t by blast
  then have w5: "computeExpiresAt parseDate0 1700000005000 (Some ''2h'') (Some ''2030-01-01T00:00:00.000Z'')
      = Inr (Some 1893456000000)"
    by (simp add: c)
  have "computeExpiresAt parseDate0 1700000005000 (Some ''2h'') (Some ''2030-01-01T00:00:00.000Z'')
      = computeExpiresAt parseDate0 1700000005000 (Some ''garbage'') (Some ''2030-01-01T00:00:00.000Z'')"
    using b t by blast
  then have w6: "computeExpiresAt parseDate0 1700000005000 (Some ''garbage'') (Some ''2030-01-01T00:00:00.000Z'')
      = Inr (Some 1893456000000)"
    using w5 by simp
  have q: "truthy (req_license_key banRequest0) \<and> truthy (req_player banRequest0)
      \<and> \<not> truthy (req_created_at banRequest0)"
    by (simp add: banRequest0_def truthy_def)
  have "computeExpiresAt parseDate0 1700000005000 (req_duration banRequest0) (req_expires_at banRequest0)
      = Inr (Some 1700007205000)"
    using w1 by (simp add: banRequest0_def)
  then have w7: "butlast (bans (snd (serverBan parseDate0 1700000005000 st1 banRequest0))) = bans st1
      \<and> ban_expires_at (last (bans (snd (serverBan parseDate0 1700000005000 st1 banRequest0))))
          = Some 1700007205000"
    using a q by blast
  show ?thesis
    using w1 w2 w3 w4 w5 w6 w7 by blast
qed

subsection \<open>Log read\<close>





end
